theory Spec2Isabelle
  imports
    Complex_Main
    "HOL-Library.FSet"
    "HOL-Library.Char_ord"
    "HOL-Library.List_Lexorder"
    "HOL-Library.Product_Lexorder"
    "HOL-Library.Log_Nat"
begin

section \<open>Data model of \<^verbatim>\<open>zvt/trader/trader.py\<close>\<close>

text \<open>
  Timestamps are points on a discrete time line; only their order is used
  (\<^verbatim>\<open>self.end_timestamp >= now_pd_timestamp()\<close>).
\<close>

type_synonym timestamp = int

text \<open>
  Modelled from the spec: the enum \<^verbatim>\<open>TradingLevel\<close> of \<^verbatim>\<open>zvt.domain\<close> is imported by
  the source but not part of it. The source reads a member only through
  \<^verbatim>\<open>level.value\<close> and builds one with \<^verbatim>\<open>TradingLevel(selector.level)\<close>; a member of a
  Python \<^verbatim>\<open>Enum\<close> is determined by its value (two names with one value are aliases of
  one member), so a level is its value.
\<close>

datatype TradingLevel = TradingLevel (level_value: string)

subsection \<open>TargetsSlot\<close>

text \<open>
  \<^verbatim>\<open>self.level_map_targets = {}\<close>: a dict from \<^verbatim>\<open>level.value\<close> to the targets stored
  last. The stored targets are a Python set of security ids (a finite set); the empty
  dict \<^verbatim>\<open>{}\<close> that \<^verbatim>\<open>run\<close> stores for an empty decision is falsy like the empty set
  and is replaced by \<^verbatim>\<open>set()\<close> before any use, so it is the empty set here.
\<close>

type_synonym targets = "string fset"

record TargetsSlot =
  level_map_targets :: "string \<rightharpoonup> targets"

definition TargetsSlot_init :: TargetsSlot where
  "TargetsSlot_init = \<lparr>level_map_targets = Map.empty\<rparr>"

text \<open>\<^verbatim>\<open>return self.level_map_targets.get(level.value)\<close>: \<^verbatim>\<open>None\<close> when absent.\<close>

definition get_targets :: "TargetsSlot \<Rightarrow> TradingLevel \<Rightarrow> targets option" where
  "get_targets slot level = level_map_targets slot (level_value level)"

text \<open>
  \<^verbatim>\<open>self.level_map_targets[level.value] = targets\<close>; the log line before it reads
  \<^verbatim>\<open>get_targets(level)\<close> and changes nothing.
\<close>

definition input_targets :: "TargetsSlot \<Rightarrow> TradingLevel \<Rightarrow> targets \<Rightarrow> TargetsSlot" where
  "input_targets slot level targets =
     slot\<lparr>level_map_targets := (level_map_targets slot)(level_value level \<mapsto> targets)\<rparr>"

subsection \<open>Selectors and the comparator\<close>

text \<open>
  A selector's \<^verbatim>\<open>get_targets(timestamp)\<close> returns a pandas DataFrame with the columns
  \<^verbatim>\<open>security_id\<close> and \<^verbatim>\<open>score\<close>; a DataFrame is the list of its rows, in row order.
  A score is a finite float; only its order is used, so it is the real number it denotes.
\<close>

record target_row =
  security_id :: string
  score :: real

type_synonym DataFrame = "target_row list"

text \<open>
  The class \<^verbatim>\<open>TargetSelector\<close> of \<^verbatim>\<open>zvt.selectors.selector\<close> is used through its
  attribute \<^verbatim>\<open>level\<close> and its method \<^verbatim>\<open>get_targets\<close> only.
\<close>

record TargetSelector =
  selector_level :: TradingLevel
  selector_get_targets :: "timestamp \<Rightarrow> DataFrame"

record LimitSelectorsComparator =
  selectors :: "TargetSelector list"
  limit :: int

text \<open>
  \<^verbatim>\<open>df.sort_values(by=['score', 'security_id'])\<close>: ascending, score first, then the id
  (strings compare by code point, a proper prefix first); rows with equal keys keep their
  order.
\<close>

definition sort_values :: "DataFrame \<Rightarrow> DataFrame" where
  "sort_values df = sort_key (\<lambda>r. (score r, security_id r)) df"

text \<open>
  \<^verbatim>\<open>df.iloc[list(range(self.limit)), :]\<close>: the rows at the positions \<open>0, \<dots>, limit - 1\<close>.
  The source takes it only when \<^verbatim>\<open>len(df.index) > self.limit\<close>, so every position is in
  range; \<^verbatim>\<open>range\<close> of a negative limit is empty.
\<close>

definition iloc_range :: "int \<Rightarrow> DataFrame \<Rightarrow> DataFrame" where
  "iloc_range n df = map (\<lambda>i. df ! i) [0..<nat n]"

text \<open>
  What the loop body does to the DataFrame of one selector:
  \<^verbatim>\<open>if not df.empty:
      df = df.sort_values(by=['score', 'security_id'])
      if len(df.index) > self.limit:
          df = df.iloc[list(range(self.limit)), :]\<close>
\<close>

definition sort_and_limit :: "int \<Rightarrow> DataFrame \<Rightarrow> DataFrame" where
  "sort_and_limit the_limit df =
     (if df \<noteq> [] then
        let df = sort_values df
        in if the_limit < int (length df) then iloc_range the_limit df else df
      else df)"

text \<open>
  The loop \<^verbatim>\<open>for selector in self.selectors\<close> of
  \<^verbatim>\<open>LimitSelectorsComparator.make_decision\<close>, with \<^verbatim>\<open>df_result\<close> as the accumulator:
  a selector of another level is passed over, the DataFrame of a selector of the queried
  level is sorted and cut, then appended (\<^verbatim>\<open>df_result = df_result.append(df)\<close>).
\<close>

fun make_decision_loop ::
  "int \<Rightarrow> timestamp \<Rightarrow> TradingLevel \<Rightarrow> TargetSelector list \<Rightarrow> DataFrame \<Rightarrow> DataFrame" where
  "make_decision_loop the_limit ts trading_level [] df_result = df_result"
| "make_decision_loop the_limit ts trading_level (selector # rest) df_result =
     (if selector_level selector = trading_level then
        let df = sort_and_limit the_limit (selector_get_targets selector ts)
        in make_decision_loop the_limit ts trading_level rest (df_result @ df)
      else make_decision_loop the_limit ts trading_level rest df_result)"

definition make_decision ::
  "LimitSelectorsComparator \<Rightarrow> timestamp \<Rightarrow> TradingLevel \<Rightarrow> DataFrame" where
  "make_decision cmp ts trading_level =
     make_decision_loop (limit cmp) ts trading_level (selectors cmp) []"

text \<open>
  The reference algorithm in the words of the specification: gather the full target
  lists of the selectors whose level is the queried one, concatenate them, sort the
  concatenation ascending by (score, id), and keep the first \<open>limit\<close> entries when there
  are more.
\<close>

definition make_decision_spec ::
  "LimitSelectorsComparator \<Rightarrow> timestamp \<Rightarrow> TradingLevel \<Rightarrow> DataFrame" where
  "make_decision_spec cmp ts trading_level =
     (let gathered = concat (map (\<lambda>s. selector_get_targets s ts)
                       (filter (\<lambda>s. selector_level s = trading_level) (selectors cmp)));
          ordered = sort_values gathered
      in if int (length ordered) > limit cmp then take (nat (limit cmp)) ordered else ordered)"

subsection \<open>Python floats\<close>

text \<open>
  A Python float is an IEEE 754 binary64 number; a finite one is the real number it
  denotes. Every arithmetic operation returns the exact result rounded to the nearest
  binary64 number, ties to the even significand. \<open>binary_exponent x\<close> is the \<open>e\<close> with
  \<open>2 ^ e \<le> x < 2 ^ (e + 1)\<close> for a positive \<open>x\<close>; the significand has 53 bits, and below
  \<open>2 ^ -1022\<close> the spacing stays that of the subnormal numbers. Overflow to infinity is
  not represented: the operations below are used on \<open>1.0 / len(longed)\<close>, which is at most
  1, and on the product of the cash with it, which is no larger than the cash.
\<close>

definition pow2 :: "int \<Rightarrow> real" where
  "pow2 e = (if 0 \<le> e then 2 ^ nat e else 1 / 2 ^ nat (- e))"

definition round_half_even :: "real \<Rightarrow> int" where
  "round_half_even x =
     (let f = \<lfloor>x\<rfloor>; d = x - of_int f
      in if d < 1 / 2 then f else if 1 / 2 < d then f + 1 else if even f then f else f + 1)"

definition binary_exponent :: "real \<Rightarrow> int" where
  "binary_exponent x =
     (if 1 \<le> x then int (floorlog 2 (nat \<lfloor>x\<rfloor>)) - 1
      else - int (floorlog 2 (nat (\<lceil>1 / x\<rceil> - 1))))"

definition round_binary64 :: "real \<Rightarrow> real" where
  "round_binary64 x =
     (if x = 0 then 0
      else let e = max (binary_exponent \<bar>x\<bar>) (- 1022);
               ulp = pow2 (e - 52)
           in sgn x * of_int (round_half_even (\<bar>x\<bar> / ulp)) * ulp)"

text \<open>\<^verbatim>\<open>float(n)\<close>, the conversion Python applies to the int operand of \<^verbatim>\<open>1.0 / n\<close>.\<close>

definition float_of_int :: "int \<Rightarrow> real" where
  "float_of_int n = round_binary64 (of_int n)"

text \<open>\<^verbatim>\<open>a / b\<close> on floats, for a divisor that is not zero.\<close>

definition float_truediv :: "real \<Rightarrow> real \<Rightarrow> real" where
  "float_truediv a b = round_binary64 (a / b)"

text \<open>\<^verbatim>\<open>a * b\<close> on floats.\<close>

definition float_mul :: "real \<Rightarrow> real \<Rightarrow> real" where
  "float_mul a b = round_binary64 (a * b)"

subsection \<open>Signals, accounts and listeners\<close>

text \<open>
  Modelled from the spec: the class \<^verbatim>\<open>TradingSignal\<close> and the enum
  \<^verbatim>\<open>TradingSignalType\<close> of \<^verbatim>\<open>zvt.trader\<close> are imported by the source but not part of it.
  The specification's data model gives a signal the fields below, \<^verbatim>\<open>orderMoney\<close> and
  \<^verbatim>\<open>positionPct\<close> optional; a field is \<open>None\<close> when the constructor call passes no such
  keyword argument. The source names two signal types.
\<close>

datatype TradingSignalType = trading_signal_open_long | trading_signal_close_long

record TradingSignal =
  signal_security_id :: string
  the_timestamp :: timestamp
  trading_signal_type :: TradingSignalType
  signal_trading_level :: TradingLevel
  position_pct :: "real option"
  order_money :: "real option"

text \<open>
  \<^verbatim>\<open>account = self.account_service.latest_account\<close> is read as a dict with the keys
  \<^verbatim>\<open>cash\<close> and \<^verbatim>\<open>positions\<close>, a position as a dict with the keys \<^verbatim>\<open>security_id\<close> and
  \<^verbatim>\<open>available_long\<close>. The cash is a finite float.
\<close>

record position =
  position_security_id :: string
  available_long :: real

record account =
  cash :: real
  positions :: "position list"

text \<open>
  A listener is an object with a method \<^verbatim>\<open>on_trading_signal\<close>; membership in the listener
  list compares objects, so a listener is its identity. The account service
  (\<^verbatim>\<open>SimAccountService\<close> of \<^verbatim>\<open>zvt.trader.account\<close>) is a listener itself and holds the
  latest account.
\<close>

type_synonym listener = nat

record SimAccountService =
  service_listener :: listener
  latest_account :: account

subsection \<open>Trader\<close>

text \<open>
  The attributes of a constructed \<^verbatim>\<open>Trader\<close> that the methods below read or write. The
  universe filter (\<^verbatim>\<open>security_list\<close>, \<^verbatim>\<open>security_type\<close>, \<^verbatim>\<open>exchanges\<close>, \<^verbatim>\<open>codes\<close>) and
  the \<^verbatim>\<open>provider\<close> are only handed on to the collaborators and are left out.
\<close>

record Trader =
  trader_name :: string
  trading_signal_listeners :: "listener list"
  trader_selectors :: "TargetSelector list"
  trading_level :: TradingLevel
  real_time :: bool
  start_timestamp :: timestamp
  end_timestamp :: timestamp
  kdata_use_begin_time :: bool
  account_service :: SimAccountService
  selectors_comparator :: LimitSelectorsComparator
  trading_level_asc :: "TradingLevel list"
  trading_level_desc :: "TradingLevel list"
  targets_slot :: TargetsSlot

text \<open>
  \<^verbatim>\<open>if listener not in self.trading_signal_listeners:
      self.trading_signal_listeners.append(listener)\<close>
\<close>

definition add_trading_signal_listener :: "Trader \<Rightarrow> listener \<Rightarrow> Trader" where
  "add_trading_signal_listener trader listener =
     (if listener \<notin> set (trading_signal_listeners trader)
      then trader\<lparr>trading_signal_listeners := trading_signal_listeners trader @ [listener]\<rparr>
      else trader)"

text \<open>
  \<^verbatim>\<open>if listener in self.trading_signal_listeners:
      self.trading_signal_listeners.remove(listener)\<close>;
  \<^verbatim>\<open>list.remove\<close> deletes the first occurrence.
\<close>

definition remove_trading_signal_listener :: "Trader \<Rightarrow> listener \<Rightarrow> Trader" where
  "remove_trading_signal_listener trader listener =
     (if listener \<in> set (trading_signal_listeners trader)
      then trader\<lparr>trading_signal_listeners := remove1 listener (trading_signal_listeners trader)\<rparr>
      else trader)"

subsection \<open>The constructor\<close>

datatype error = AssertionError | NotImplementedError | TypeError

text \<open>The arguments of \<^verbatim>\<open>Trader.__init__\<close>; \<open>None\<close> is Python's \<^verbatim>\<open>None\<close>.\<close>

record TraderArgs =
  arg_trader_name :: "string option"
  arg_start_timestamp :: "timestamp option"
  arg_end_timestamp :: "timestamp option"
  arg_trading_level :: TradingLevel
  arg_real_time :: bool
  arg_kdata_use_begin_time :: bool

text \<open>
  What the constructor takes from outside the source file: the clock
  (\<^verbatim>\<open>now_pd_timestamp()\<close>), the lower-cased class name, the constructor of the account
  service, and the hook \<^verbatim>\<open>init_selectors\<close>, which a subclass overrides to assign
  \<^verbatim>\<open>self.selectors\<close> (\<open>Inr None\<close> when it leaves the attribute at \<^verbatim>\<open>None\<close>).

  Modelled from the spec: the comparison of \<^verbatim>\<open>TradingLevel\<close> members, which
  \<^verbatim>\<open>self.trading_level_asc.sort()\<close> uses, is not in the source; the specification makes the
  levels totally ordered from finer to coarser, here by the key \<open>level_key\<close>.
\<close>

record TraderEnv =
  now_pd_timestamp :: timestamp
  class_name_lower :: string
  new_account_service :: "string \<Rightarrow> timestamp \<Rightarrow> TradingLevel \<Rightarrow> SimAccountService"
  init_selectors :: "timestamp \<Rightarrow> timestamp \<Rightarrow> error + TargetSelector list option"
  level_key :: "TradingLevel \<Rightarrow> nat"

text \<open>The hook of the base class: \<^verbatim>\<open>raise NotImplementedError\<close>.\<close>

definition Trader_init_selectors :: "timestamp \<Rightarrow> timestamp \<Rightarrow> error + TargetSelector list option" where
  "Trader_init_selectors start_ts end_ts = Inl NotImplementedError"

text \<open>
  \<^verbatim>\<open>Trader.__init__\<close>. A failed \<^verbatim>\<open>assert\<close> raises \<^verbatim>\<open>AssertionError\<close>; iterating
  \<^verbatim>\<open>self.selectors\<close> when it is still \<^verbatim>\<open>None\<close> raises \<^verbatim>\<open>TypeError\<close>. An empty trader name
  is falsy like \<^verbatim>\<open>None\<close>. The listener list starts empty and the account service is
  registered through \<^verbatim>\<open>add_trading_signal_listener\<close>; \<^verbatim>\<open>LimitSelectorsComparator\<close> is built
  with its default \<^verbatim>\<open>limit=10\<close>.
\<close>

definition Trader_init :: "TraderEnv \<Rightarrow> TraderArgs \<Rightarrow> error + Trader" where
  "Trader_init env args =
     (let name = (case arg_trader_name args of
                    None \<Rightarrow> class_name_lower env
                  | Some n \<Rightarrow> if n \<noteq> [] then n else class_name_lower env)
      in case (arg_start_timestamp args, arg_end_timestamp args) of
           (Some start_ts, Some end_ts) \<Rightarrow>
             if arg_real_time args \<and> \<not> (now_pd_timestamp env \<le> end_ts) then Inl AssertionError
             else
               let service = new_account_service env name start_ts (arg_trading_level args)
               in (case init_selectors env start_ts end_ts of
                     Inl e \<Rightarrow> Inl e
                   | Inr None \<Rightarrow> Inl TypeError
                   | Inr (Some sels) \<Rightarrow>
                       let asc = sort_key (level_key env) (remdups (map selector_level sels))
                       in Inr (add_trading_signal_listener
                            \<lparr>trader_name = name,
                             trading_signal_listeners = [],
                             trader_selectors = sels,
                             trading_level = arg_trading_level args,
                             real_time = arg_real_time args,
                             start_timestamp = start_ts,
                             end_timestamp = end_ts,
                             kdata_use_begin_time = arg_kdata_use_begin_time args,
                             account_service = service,
                             selectors_comparator = \<lparr>selectors = sels, limit = 10\<rparr>,
                             trading_level_asc = asc,
                             trading_level_desc = rev asc,
                             targets_slot = TargetsSlot_init\<rparr>
                            (service_listener service)))
         | _ \<Rightarrow> Inl AssertionError)"

subsection \<open>Consensus and signals\<close>

text \<open>
  \<^verbatim>\<open>current_holdings = [position['security_id'] for position in account['positions']
                      if position['available_long'] > 0]\<close>
\<close>

definition current_holdings :: "account \<Rightarrow> string list" where
  "current_holdings acc =
     map position_security_id (filter (\<lambda>p. 0 < available_long p) (positions acc))"

text \<open>
  \<^verbatim>\<open>for listener in self.trading_signal_listeners: listener.on_trading_signal(signal)\<close>.
  What a listener does with a signal is outside the source; the effect recorded is the
  sequence of calls, each a pair of the listener and the signal it receives.
\<close>

definition notify_listeners :: "listener list \<Rightarrow> TradingSignal \<Rightarrow> (listener \<times> TradingSignal) list" where
  "notify_listeners listeners signal = map (\<lambda>l. (l, signal)) listeners"

text \<open>
  The two constructor calls of \<^verbatim>\<open>send_trading_signals\<close>:
  \<^verbatim>\<open>TradingSignal(security_id=security_id, the_timestamp=timestamp,
                trading_signal_type=TradingSignalType.trading_signal_open_long,
                trading_level=self.trading_level, order_money=order_money)\<close> and
  \<^verbatim>\<open>TradingSignal(security_id=security_id, the_timestamp=timestamp,
                trading_signal_type=TradingSignalType.trading_signal_close_long,
                position_pct=1.0, trading_level=self.trading_level)\<close>.
\<close>

definition open_long_signal :: "Trader \<Rightarrow> timestamp \<Rightarrow> real \<Rightarrow> string \<Rightarrow> TradingSignal" where
  "open_long_signal trader ts money sid =
     \<lparr>signal_security_id = sid,
      the_timestamp = ts,
      trading_signal_type = trading_signal_open_long,
      signal_trading_level = trading_level trader,
      position_pct = None,
      order_money = Some money\<rparr>"

definition close_long_signal :: "Trader \<Rightarrow> timestamp \<Rightarrow> string \<Rightarrow> TradingSignal" where
  "close_long_signal trader ts sid =
     \<lparr>signal_security_id = sid,
      the_timestamp = ts,
      trading_signal_type = trading_signal_close_long,
      signal_trading_level = trading_level trader,
      position_pct = Some 1,
      order_money = None\<rparr>"

text \<open>
  \<^verbatim>\<open>Trader.send_trading_signals\<close>. The argument \<open>selected\<close> is \<^verbatim>\<open>None\<close> or a set; both
  \<^verbatim>\<open>None\<close> and the empty set are falsy. With a non-empty \<open>longed\<close>,
  \<^verbatim>\<open>position_pct = 1.0 / len(longed)\<close> and \<^verbatim>\<open>order_money = account['cash'] * position_pct\<close>
  are float operations. Python fixes no iteration order for a set; the loops
  \<^verbatim>\<open>for security_id in longed\<close> and \<^verbatim>\<open>for security_id in shorted\<close> run here in ascending
  order of the ids, and no theorem below depends on that order. The result is the
  sequence of listener calls, the opening ones first.
\<close>

definition send_trading_signals ::
  "Trader \<Rightarrow> timestamp \<Rightarrow> targets option \<Rightarrow> (listener \<times> TradingSignal) list" where
  "send_trading_signals trader ts selected =
     (let acc = latest_account (account_service trader);
          holdings = current_holdings acc;
          opened =
            (case selected of
               None \<Rightarrow> []
             | Some sel \<Rightarrow>
                 if sel = {||} then []
                 else
                   let longed = sel |-| fset_of_list holdings
                   in if longed = {||} then []
                      else
                        let pct = float_truediv 1 (float_of_int (int (fcard longed)));
                            money = float_mul (cash acc) pct
                        in concat (map (\<lambda>sid. notify_listeners (trading_signal_listeners trader)
                                          (open_long_signal trader ts money sid))
                             (sorted_list_of_fset longed)));
          shorted =
            (case selected of
               None \<Rightarrow> fset_of_list holdings
             | Some sel \<Rightarrow>
                 if sel = {||} then fset_of_list holdings
                 else fset_of_list holdings |-| sel);
          closed =
            concat (map (\<lambda>sid. notify_listeners (trading_signal_listeners trader)
                             (close_long_signal trader ts sid))
              (sorted_list_of_fset shorted))
      in opened @ closed)"

text \<open>
  The instruments for which the listener \<open>l\<close> is called with a signal of the given type,
  in a sequence of listener calls.
\<close>

definition received :: "listener \<Rightarrow> TradingSignalType \<Rightarrow> (listener \<times> TradingSignal) list \<Rightarrow> string set" where
  "received l kind calls =
     set (map (\<lambda>c. signal_security_id (snd c))
       (filter (\<lambda>c. fst c = l \<and> trading_signal_type (snd c) = kind) calls))"

text \<open>
  The loop \<^verbatim>\<open>for level in self.trading_level_desc\<close> of \<^verbatim>\<open>Trader.handle_targets_slot\<close>,
  with \<open>selected\<close> as the accumulator: \<^verbatim>\<open>if not targets: targets = set()\<close>, then
  \<^verbatim>\<open>if not selected: selected = targets\<close>, \<^verbatim>\<open>else: selected = selected & targets\<close>.
\<close>

fun handle_targets_slot_loop ::
  "TargetsSlot \<Rightarrow> TradingLevel list \<Rightarrow> targets option \<Rightarrow> targets option" where
  "handle_targets_slot_loop slot [] selected = selected"
| "handle_targets_slot_loop slot (level # rest) selected =
     (let targets = (case get_targets slot level of
                       None \<Rightarrow> {||}
                     | Some t \<Rightarrow> if t = {||} then {||} else t)
      in handle_targets_slot_loop slot rest
           (case selected of
              None \<Rightarrow> Some targets
            | Some sel \<Rightarrow> if sel = {||} then Some targets else Some (sel |\<inter>| targets)))"

text \<open>
  \<^verbatim>\<open>Trader.handle_targets_slot\<close>: \<^verbatim>\<open>selected = None\<close>, the loop, and
  \<^verbatim>\<open>self.send_trading_signals(timestamp=timestamp, selected=selected)\<close>.
\<close>

definition handle_targets_slot :: "Trader \<Rightarrow> timestamp \<Rightarrow> (listener \<times> TradingSignal) list" where
  "handle_targets_slot trader ts =
     send_trading_signals trader ts
       (handle_targets_slot_loop (targets_slot trader) (trading_level_desc trader) None)"

text \<open>
  The consensus in the words of the specification: the intersection of the cached sets
  of all levels, an absent entry read as the empty set, starting from the set of the
  coarsest level.
\<close>

definition cached_targets :: "TargetsSlot \<Rightarrow> TradingLevel \<Rightarrow> targets" where
  "cached_targets slot level = (case get_targets slot level of None \<Rightarrow> {||} | Some t \<Rightarrow> t)"

fun consensus_spec :: "TargetsSlot \<Rightarrow> TradingLevel list \<Rightarrow> targets" where
  "consensus_spec slot [] = {||}"
| "consensus_spec slot (level # rest) =
     fold (\<lambda>l acc. acc |\<inter>| cached_targets slot l) rest (cached_targets slot level)"

subsection \<open>Example configurations\<close>

definition day :: TradingLevel where
  "day = TradingLevel ''1d''"

definition five_min :: TradingLevel where
  "five_min = TradingLevel ''5m''"

definition row :: "string \<Rightarrow> real \<Rightarrow> target_row" where
  "row sid sc = \<lparr>security_id = sid, score = sc\<rparr>"

text \<open>A selector of the given level that returns the given DataFrame at every timestamp.\<close>

definition fixed_selector :: "TradingLevel \<Rightarrow> DataFrame \<Rightarrow> TargetSelector" where
  "fixed_selector lv df = \<lparr>selector_level = lv, selector_get_targets = (\<lambda>ts. df)\<rparr>"

text \<open>One daily selector with the three targets of the specification's first scenario.\<close>

definition one_selector_cmp :: LimitSelectorsComparator where
  "one_selector_cmp =
     \<lparr>selectors = [fixed_selector day [row ''A'' 0.9, row ''B'' 0.8, row ''C'' 0.95]], limit = 2\<rparr>"

text \<open>The same three targets, produced by two daily selectors.\<close>

definition two_selectors_cmp :: LimitSelectorsComparator where
  "two_selectors_cmp =
     \<lparr>selectors = [fixed_selector day [row ''A'' 0.9, row ''B'' 0.8],
                   fixed_selector day [row ''C'' 0.95]],
      limit = 2\<rparr>"

text \<open>Two daily selectors that both pick the instrument \<open>A\<close>, with limit 1.\<close>

definition same_pick_cmp :: LimitSelectorsComparator where
  "same_pick_cmp =
     \<lparr>selectors = [fixed_selector day [row ''A'' 0.9], fixed_selector day [row ''A'' 0.7]],
      limit = 1\<rparr>"

text \<open>
  A trader with the given listeners and account, as a subclass's constructor leaves it
  (one daily selector level, empty slot).
\<close>

definition example_trader :: "listener list \<Rightarrow> account \<Rightarrow> Trader" where
  "example_trader ls acc =
     \<lparr>trader_name = ''trader'',
      trading_signal_listeners = ls,
      trader_selectors = [],
      trading_level = day,
      real_time = False,
      start_timestamp = 0,
      end_timestamp = 100,
      kdata_use_begin_time = False,
      account_service = \<lparr>service_listener = 0, latest_account = acc\<rparr>,
      selectors_comparator = \<lparr>selectors = [], limit = 10\<rparr>,
      trading_level_asc = [day],
      trading_level_desc = [day],
      targets_slot = TargetsSlot_init\<rparr>"

text \<open>The account of the specification's third scenario: cash 10000, a long position in \<open>X\<close>.\<close>

definition holding_x :: account where
  "holding_x = \<lparr>cash = 10000, positions = [\<lparr>position_security_id = ''X'', available_long = 100\<rparr>]\<rparr>"

text \<open>An account with cash 10000 and no position.\<close>

definition cash_only :: account where
  "cash_only = \<lparr>cash = 10000, positions = []\<rparr>"

text \<open>
  An environment with the clock at \<open>now\<close> and the hook of a subclass that configures one
  daily selector.
\<close>

definition example_env :: "timestamp \<Rightarrow> TraderEnv" where
  "example_env now =
     \<lparr>now_pd_timestamp = now,
      class_name_lower = ''mytrader'',
      new_account_service = (\<lambda>name ts lv. \<lparr>service_listener = 0, latest_account = cash_only\<rparr>),
      init_selectors = (\<lambda>start_ts end_ts. Inr (Some [fixed_selector day []])),
      level_key = (\<lambda>lv. length (level_value lv))\<rparr>"

definition example_args :: "timestamp option \<Rightarrow> timestamp option \<Rightarrow> bool \<Rightarrow> TraderArgs" where
  "example_args start_ts end_ts rt =
     \<lparr>arg_trader_name = None,
      arg_start_timestamp = start_ts,
      arg_end_timestamp = end_ts,
      arg_trading_level = day,
      arg_real_time = rt,
      arg_kdata_use_begin_time = False\<rparr>"

text \<open>
  The slot on the first trading day of a trader with a daily and a five-minute level,
  after the first tick: the five-minute level has decided \<open>{Y, Z}\<close>, the daily level has
  no entry yet.
\<close>

definition first_day_slot :: TargetsSlot where
  "first_day_slot = input_targets TargetsSlot_init five_min {|''Y'', ''Z''|}"

section \<open>Theorems\<close>

subsection \<open>TargetsSlot\<close>

text \<open>
  C6: \<^verbatim>\<open>input_targets\<close> replaces and never merges. After \<^verbatim>\<open>input_targets(L, A)\<close> and
  then \<^verbatim>\<open>input_targets(L, B)\<close>, \<^verbatim>\<open>get_targets(L)\<close> returns \<open>B\<close>, whatever the slot held
  before and whatever \<open>A\<close> was.
\<close>

theorem input_targets_last_write_wins:
  "get_targets (input_targets (input_targets slot L A) L B) L = Some B"
  by (simp add: get_targets_def input_targets_def)

text \<open>
  C9: frame property of \<^verbatim>\<open>input_targets\<close>. For distinct levels \<open>L\<close> and \<open>L'\<close>, a call
  \<^verbatim>\<open>input_targets(L, T)\<close> leaves \<^verbatim>\<open>get_targets(L')\<close> as it was: only the entry of \<open>L\<close>
  is written.
\<close>

theorem input_targets_frame:
  assumes "L \<noteq> L'"
  shows "get_targets (input_targets slot L T) L' = get_targets slot L'"
proof -
  from assms have "level_value L \<noteq> level_value L'"
    by (cases L, cases L') simp
  then show ?thesis
    by (simp add: get_targets_def input_targets_def)
qed

theorem input_targets_frame_witness:
  "TradingLevel ''1d'' \<noteq> TradingLevel ''5m'' \<and>
   get_targets (input_targets (input_targets TargetsSlot_init (TradingLevel ''5m'') {|''Y'', ''Z''|})
                  (TradingLevel ''1d'') {|''X''|}) (TradingLevel ''5m'')
     = Some {|''Y'', ''Z''|}"
proof -
  have ne: "TradingLevel ''1d'' \<noteq> TradingLevel ''5m''" by simp
  have "get_targets (input_targets TargetsSlot_init (TradingLevel ''5m'') {|''Y'', ''Z''|})
          (TradingLevel ''5m'') = Some {|''Y'', ''Z''|}"
    by (simp add: get_targets_def input_targets_def)
  with ne input_targets_frame [OF ne] show ?thesis by simp
qed


subsection \<open>The comparator\<close>

lemma make_decision_loop_append:
  "make_decision_loop n ts lv sels acc =
     acc @ concat (map (\<lambda>s. sort_and_limit n (selector_get_targets s ts))
             (filter (\<lambda>s. selector_level s = lv) sels))"
  by (induction sels arbitrary: acc) (simp_all add: Let_def)

lemma make_decision_concat:
  "make_decision cmp ts lv =
     concat (map (\<lambda>s. sort_and_limit (limit cmp) (selector_get_targets s ts))
       (filter (\<lambda>s. selector_level s = lv) (selectors cmp)))"
  by (simp add: make_decision_def make_decision_loop_append)

lemma iloc_range_take:
  assumes "nat n \<le> length df"
  shows "iloc_range n df = take (nat n) df"
  using assms by (auto simp: iloc_range_def list_eq_iff_nth_eq)

lemma sort_and_limit_take:
  "sort_and_limit n df =
     (if n < int (length (sort_values df)) then take (nat n) (sort_values df)
      else sort_values df)"
proof (cases "df = []")
  case True
  then show ?thesis by (simp add: sort_and_limit_def sort_values_def)
next
  case False
  have "iloc_range n (sort_values df) = take (nat n) (sort_values df)"
    if "n < int (length (sort_values df))"
    using that by (intro iloc_range_take) linarith
  with False show ?thesis by (simp add: sort_and_limit_def Let_def)
qed

lemma length_sort_and_limit:
  assumes "0 \<le> n"
  shows "int (length (sort_and_limit n df)) \<le> n"
  using assms by (simp add: sort_and_limit_take)

lemma set_sort_and_limit: "set (sort_and_limit n df) \<subseteq> set df"
  by (auto simp: sort_and_limit_take sort_values_def dest: in_set_takeD)

lemma distinct_ids_sort_and_limit:
  assumes "distinct (map security_id df)"
  shows "distinct (map security_id (sort_and_limit n df))"
proof -
  from assms have d: "distinct df" and i: "inj_on security_id (set df)"
    by (simp_all add: distinct_map)
  have "distinct (sort_and_limit n df)"
    using d by (simp add: sort_and_limit_take sort_values_def)
  moreover have "inj_on security_id (set (sort_and_limit n df))"
    using i set_sort_and_limit by (rule inj_on_subset)
  ultimately show ?thesis by (simp add: distinct_map)
qed

lemma length_concat_bound:
  assumes "\<And>x. x \<in> set xs \<Longrightarrow> int (length (f x)) \<le> n"
  shows "int (length (concat (map f xs))) \<le> n * int (length xs)"
  using assms
proof (induction xs)
  case Nil
  then show ?case by simp
next
  case (Cons x xs)
  then have "int (length (f x)) \<le> n" and "int (length (concat (map f xs))) \<le> n * int (length xs)"
    by simp_all
  then show ?case by (simp add: algebra_simps)
qed

lemma distinct_ids_concat:
  assumes "distinct (map security_id (concat dfs))"
  shows "distinct (map security_id (concat (map (sort_and_limit n) dfs)))"
  using assms
proof (induction dfs)
  case Nil
  then show ?case by simp
next
  case (Cons df dfs)
  from Cons.prems have here: "distinct (map security_id df)"
    and rest: "distinct (map security_id (concat dfs))"
    and apart: "security_id ` set df \<inter> security_id ` set (concat dfs) = {}"
    by (simp_all add: image_Union)
  have sub: "set (concat (map (sort_and_limit n) dfs)) \<subseteq> set (concat dfs)"
    using set_sort_and_limit by fastforce
  have "security_id ` set (sort_and_limit n df) \<inter>
          security_id ` set (concat (map (sort_and_limit n) dfs)) = {}"
    using apart sub set_sort_and_limit [of n df] by blast
  with distinct_ids_sort_and_limit [OF here] Cons.IH [OF rest] show ?case
    by (simp add: image_Union)
qed

lemma make_decision_spec_single:
  "make_decision_spec (cmp\<lparr>selectors := [s]\<rparr>) ts lv =
     (if selector_level s = lv then sort_and_limit (limit cmp) (selector_get_targets s ts) else [])"
  by (simp add: make_decision_spec_def sort_and_limit_take Let_def sort_values_def)

text \<open>
  C2, as amended: with a limit that is not negative, \<^verbatim>\<open>make_decision\<close> returns at most
  \<open>limit\<close> rows for each selector of the queried level, so at most \<open>limit\<close> times the
  number of those selectors, and its result has no duplicate instrument id whenever the
  target lists of those selectors, taken together, have none.
\<close>

theorem make_decision_limit_per_selector:
  assumes "0 \<le> limit cmp"
  shows "int (length (make_decision cmp ts lv))
           \<le> limit cmp * int (length (filter (\<lambda>s. selector_level s = lv) (selectors cmp)))
         \<and> (distinct (map security_id (concat (map (\<lambda>s. selector_get_targets s ts)
                (filter (\<lambda>s. selector_level s = lv) (selectors cmp)))))
            \<longrightarrow> distinct (map security_id (make_decision cmp ts lv)))"
proof
  show "int (length (make_decision cmp ts lv))
          \<le> limit cmp * int (length (filter (\<lambda>s. selector_level s = lv) (selectors cmp)))"
    unfolding make_decision_concat
    by (rule length_concat_bound) (rule length_sort_and_limit [OF assms])
next
  let ?dfs = "map (\<lambda>s. selector_get_targets s ts)
                (filter (\<lambda>s. selector_level s = lv) (selectors cmp))"
  have "make_decision cmp ts lv = concat (map (sort_and_limit (limit cmp)) ?dfs)"
    by (simp add: make_decision_concat comp_def)
  then show "distinct (map security_id (concat ?dfs))
               \<longrightarrow> distinct (map security_id (make_decision cmp ts lv))"
    using distinct_ids_concat [of ?dfs "limit cmp"] by simp
qed

theorem make_decision_limit_per_selector_witness:
  "0 \<le> limit one_selector_cmp
   \<and> distinct (map security_id (concat (map (\<lambda>s. selector_get_targets s 0)
         (filter (\<lambda>s. selector_level s = day) (selectors one_selector_cmp)))))
   \<and> int (length (make_decision one_selector_cmp 0 day)) \<le> 2
   \<and> distinct (map security_id (make_decision one_selector_cmp 0 day))"
proof -
  have l: "0 \<le> limit one_selector_cmp"
    by (simp add: one_selector_cmp_def)
  have d: "distinct (map security_id (concat (map (\<lambda>s. selector_get_targets s 0)
             (filter (\<lambda>s. selector_level s = day) (selectors one_selector_cmp)))))"
    by (simp add: one_selector_cmp_def fixed_selector_def row_def)
  have n: "limit one_selector_cmp
             * int (length (filter (\<lambda>s. selector_level s = day) (selectors one_selector_cmp))) = 2"
    by (simp add: one_selector_cmp_def fixed_selector_def)
  from make_decision_limit_per_selector [OF l, of 0 day] l d n show ?thesis
    by simp
qed

theorem make_decision_exceeds_limit_counterexample:
  "limit same_pick_cmp < int (length (make_decision same_pick_cmp 0 day))
   \<and> \<not> distinct (map security_id (make_decision same_pick_cmp 0 day))"
  by (simp add: make_decision_def same_pick_cmp_def fixed_selector_def row_def
      sort_and_limit_def sort_values_def)

text \<open>
  C3, as amended: \<^verbatim>\<open>make_decision\<close> is the reference algorithm run on each configured
  selector alone (its list sorted ascending by (score, id) and cut to its first \<open>limit\<close>
  rows), the results concatenated in the order of the configuration; it is the reference
  algorithm on the whole configuration when at most one selector has the queried level.
\<close>

theorem make_decision_per_selector_reference:
  "make_decision cmp ts lv
     = concat (map (\<lambda>s. make_decision_spec (cmp\<lparr>selectors := [s]\<rparr>) ts lv) (selectors cmp))
   \<and> (length (filter (\<lambda>s. selector_level s = lv) (selectors cmp)) \<le> 1
      \<longrightarrow> make_decision cmp ts lv = make_decision_spec cmp ts lv)"
proof
  have "concat (map (\<lambda>s. if selector_level s = lv then f s else []) sels)
          = concat (map f (filter (\<lambda>s. selector_level s = lv) sels))" for f :: "TargetSelector \<Rightarrow> DataFrame" and sels
    by (induction sels) simp_all
  then show "make_decision cmp ts lv
      = concat (map (\<lambda>s. make_decision_spec (cmp\<lparr>selectors := [s]\<rparr>) ts lv) (selectors cmp))"
    by (simp add: make_decision_concat make_decision_spec_single)
next
  show "length (filter (\<lambda>s. selector_level s = lv) (selectors cmp)) \<le> 1
          \<longrightarrow> make_decision cmp ts lv = make_decision_spec cmp ts lv"
  proof
    assume "length (filter (\<lambda>s. selector_level s = lv) (selectors cmp)) \<le> 1"
    then consider "filter (\<lambda>s. selector_level s = lv) (selectors cmp) = []"
      | s where "filter (\<lambda>s. selector_level s = lv) (selectors cmp) = [s]"
      by (cases "filter (\<lambda>s. selector_level s = lv) (selectors cmp)") (auto simp: length_Suc_conv)
    then show "make_decision cmp ts lv = make_decision_spec cmp ts lv"
    proof cases
      case 1
      then show ?thesis
        by (simp add: make_decision_concat make_decision_spec_def sort_values_def)
    next
      case 2
      then show ?thesis
        by (simp add: make_decision_concat make_decision_spec_def sort_and_limit_take Let_def)
    qed
  qed
qed

theorem make_decision_per_selector_reference_witness:
  "length (filter (\<lambda>s. selector_level s = day) (selectors one_selector_cmp)) \<le> 1
   \<and> make_decision one_selector_cmp 0 day = [row ''B'' 0.8, row ''A'' 0.9]"
proof -
  have one: "length (filter (\<lambda>s. selector_level s = day) (selectors one_selector_cmp)) \<le> 1"
    by (simp add: one_selector_cmp_def fixed_selector_def)
  have ref: "make_decision_spec one_selector_cmp 0 day = [row ''B'' 0.8, row ''A'' 0.9]"
    by (simp add: make_decision_spec_def one_selector_cmp_def fixed_selector_def row_def
        sort_values_def)
  from make_decision_per_selector_reference [of one_selector_cmp 0 day] one
  have "make_decision one_selector_cmp 0 day = make_decision_spec one_selector_cmp 0 day"
    by blast
  with one ref show ?thesis by (simp only: simp_thms)
qed

theorem make_decision_differs_from_reference_counterexample:
  "map security_id (make_decision two_selectors_cmp 0 day) = [''B'', ''A'', ''C'']
   \<and> map security_id (make_decision_spec two_selectors_cmp 0 day) = [''B'', ''A'']
   \<and> make_decision two_selectors_cmp 0 day \<noteq> make_decision_spec two_selectors_cmp 0 day"
proof -
  have a: "make_decision two_selectors_cmp 0 day = [row ''B'' 0.8, row ''A'' 0.9, row ''C'' 0.95]"
    by (simp add: make_decision_def two_selectors_cmp_def fixed_selector_def row_def
        sort_and_limit_def sort_values_def)
  have b: "make_decision_spec two_selectors_cmp 0 day = [row ''B'' 0.8, row ''A'' 0.9]"
    by (simp add: make_decision_spec_def two_selectors_cmp_def fixed_selector_def row_def
        sort_values_def)
  show ?thesis unfolding a b by (simp add: row_def)
qed


subsection \<open>Listeners\<close>

text \<open>
  C10: listener registration is idempotent and keeps the order. Adding a listener that is
  in the list changes nothing, adding another one appends it at the end, and adding twice
  is adding once. Removing a listener that is not in the list changes nothing; removing
  one that is in the list deletes its first occurrence and keeps the others in order, so
  that it is gone from a list without repetitions, and the lists built by adding have no
  repetitions.
\<close>

theorem listener_registration:
  "(l \<in> set (trading_signal_listeners t) \<longrightarrow> add_trading_signal_listener t l = t)
   \<and> (l \<notin> set (trading_signal_listeners t) \<longrightarrow>
        trading_signal_listeners (add_trading_signal_listener t l) = trading_signal_listeners t @ [l])
   \<and> add_trading_signal_listener (add_trading_signal_listener t l) l = add_trading_signal_listener t l
   \<and> (l \<notin> set (trading_signal_listeners t) \<longrightarrow> remove_trading_signal_listener t l = t)
   \<and> (l \<in> set (trading_signal_listeners t) \<longrightarrow>
        (\<exists>xs ys. trading_signal_listeners t = xs @ l # ys \<and> l \<notin> set xs \<and>
           trading_signal_listeners (remove_trading_signal_listener t l) = xs @ ys))
   \<and> (distinct (trading_signal_listeners t) \<longrightarrow>
        l \<notin> set (trading_signal_listeners (remove_trading_signal_listener t l))
        \<and> distinct (trading_signal_listeners (add_trading_signal_listener t l)))"
proof -
  have removed: "\<exists>xs ys. ls = xs @ l # ys \<and> l \<notin> set xs \<and> remove1 l ls = xs @ ys"
    if "l \<in> set ls" for ls :: "listener list"
  proof -
    from that obtain xs ys where "ls = xs @ l # ys" and "l \<notin> set xs"
      by (auto dest: split_list_first)
    then show ?thesis by (auto simp: remove1_append)
  qed
  show ?thesis
    by (auto simp: add_trading_signal_listener_def remove_trading_signal_listener_def
        dest: removed)
qed

theorem listener_registration_witness:
  "(3::nat) \<in> set (trading_signal_listeners (example_trader [3, 5] cash_only))
   \<and> 7 \<notin> set (trading_signal_listeners (example_trader [3, 5] cash_only))
   \<and> distinct (trading_signal_listeners (example_trader [3, 5] cash_only))
   \<and> add_trading_signal_listener (example_trader [3, 5] cash_only) 3 = example_trader [3, 5] cash_only
   \<and> trading_signal_listeners (add_trading_signal_listener (example_trader [3, 5] cash_only) 7)
        = [3, 5, 7]
   \<and> remove_trading_signal_listener (example_trader [3, 5] cash_only) 7 = example_trader [3, 5] cash_only
   \<and> 3 \<notin> set (trading_signal_listeners (remove_trading_signal_listener (example_trader [3, 5] cash_only) 3))"
proof -
  let ?t = "example_trader [3, 5] cash_only"
  have ls: "trading_signal_listeners ?t = [3, 5]"
    by (simp add: example_trader_def)
  have a: "3 \<in> set (trading_signal_listeners ?t)"
    and b: "7 \<notin> set (trading_signal_listeners ?t)"
    and c: "distinct (trading_signal_listeners ?t)"
    by (simp_all add: ls)
  note at3 = listener_registration [of 3 ?t]
  note at7 = listener_registration [of 7 ?t]
  from at3 a have 1: "add_trading_signal_listener ?t 3 = ?t" by blast
  from at7 b have "trading_signal_listeners (add_trading_signal_listener ?t 7)
      = trading_signal_listeners ?t @ [7]" by blast
  then have 2: "trading_signal_listeners (add_trading_signal_listener ?t 7) = [3, 5, 7]"
    by (simp add: ls)
  from at7 b have 3: "remove_trading_signal_listener ?t 7 = ?t" by blast
  from at3 c have 4: "3 \<notin> set (trading_signal_listeners (remove_trading_signal_listener ?t 3))"
    by blast
  from a b c 1 2 3 4 show ?thesis by (simp only: simp_thms)
qed

subsection \<open>The constructor\<close>

lemma Trader_init_ok:
  "\<exists>t. Trader_init (example_env 10) (example_args (Some 0) (Some 20) True) = Inr t
       \<and> trading_signal_listeners t = [0] \<and> trader_name t = ''mytrader''
       \<and> trading_level_desc t = [day]"
  by (simp add: Trader_init_def example_env_def example_args_def add_trading_signal_listener_def
      fixed_selector_def Let_def)

text \<open>
  C7: configuration errors are rejected by the constructor. Without a start timestamp or
  without an end timestamp \<^verbatim>\<open>Trader.__init__\<close> fails with an \<^verbatim>\<open>AssertionError\<close>, and so it
  does in real-time mode with an end timestamp strictly before the current time; no
  trader is constructed, so no tick is processed.
\<close>

theorem Trader_init_rejects_configuration:
  "(arg_start_timestamp args = None \<or> arg_end_timestamp args = None
      \<longrightarrow> Trader_init env args = Inl AssertionError)
   \<and> (arg_real_time args \<and> arg_end_timestamp args = Some end_ts \<and> end_ts < now_pd_timestamp env
      \<longrightarrow> Trader_init env args = Inl AssertionError)"
  by (auto simp: Trader_init_def Let_def split: option.splits)

theorem Trader_init_rejects_configuration_witness:
  "arg_start_timestamp (example_args None (Some 20) False) = None
   \<and> Trader_init (example_env 10) (example_args None (Some 20) False) = Inl AssertionError
   \<and> arg_end_timestamp (example_args (Some 0) None False) = None
   \<and> Trader_init (example_env 10) (example_args (Some 0) None False) = Inl AssertionError
   \<and> arg_real_time (example_args (Some 0) (Some 5) True)
   \<and> arg_end_timestamp (example_args (Some 0) (Some 5) True) = Some 5
   \<and> 5 < now_pd_timestamp (example_env 10)
   \<and> Trader_init (example_env 10) (example_args (Some 0) (Some 5) True) = Inl AssertionError"
proof -
  have a: "arg_start_timestamp (example_args None (Some 20) False) = None"
    and b: "arg_end_timestamp (example_args (Some 0) None False) = None"
    and c: "arg_real_time (example_args (Some 0) (Some 5) True)"
      "arg_end_timestamp (example_args (Some 0) (Some 5) True) = Some 5"
      "5 < now_pd_timestamp (example_env 10)"
    by (simp_all add: example_args_def example_env_def)
  from a have "Trader_init (example_env 10) (example_args None (Some 20) False) = Inl AssertionError"
    using Trader_init_rejects_configuration [of "example_args None (Some 20) False" "example_env 10"]
    by blast
  moreover from b
  have "Trader_init (example_env 10) (example_args (Some 0) None False) = Inl AssertionError"
    using Trader_init_rejects_configuration [of "example_args (Some 0) None False" "example_env 10"]
    by blast
  moreover from c
  have "Trader_init (example_env 10) (example_args (Some 0) (Some 5) True) = Inl AssertionError"
    using Trader_init_rejects_configuration
      [of "example_args (Some 0) (Some 5) True" "example_env 10" 5]
    by blast
  ultimately show ?thesis using a b c by (simp only: simp_thms)
qed


subsection \<open>Consensus\<close>

text \<open>
  C1: the consensus of \<^verbatim>\<open>handle_targets_slot\<close> at the slot \<open>first_day_slot\<close>, levels
  from the daily to the five-minute one. The daily level has no entry, which is read as
  the empty set and is the first running result; being falsy it is replaced by the
  five-minute set at the next level, so the code selects \<open>{Y, Z}\<close>, where the
  intersection of the sets of all levels is empty.
\<close>

theorem handle_targets_slot_replaces_empty:
  "handle_targets_slot_loop first_day_slot [day, five_min] None = Some {|''Y'', ''Z''|}
   \<and> consensus_spec first_day_slot [day, five_min] = {||}"
  by (simp add: first_day_slot_def cached_targets_def get_targets_def input_targets_def
      TargetsSlot_init_def day_def five_min_def)

subsection \<open>Signals\<close>

lemma received_append:
  "received l k (xs @ ys) = received l k xs \<union> received l k ys"
  by (simp add: received_def)

lemma received_Nil: "received l k [] = {}"
  by (simp add: received_def)

lemma received_notify_one:
  "received l k (notify_listeners ls sg)
     = (if l \<in> set ls \<and> k = trading_signal_type sg then {signal_security_id sg} else {})"
  by (induction ls) (auto simp: received_def notify_listeners_def)

lemma received_notify:
  assumes "\<And>sid. signal_security_id (mk sid) = sid"
    and "\<And>sid. trading_signal_type (mk sid) = k'"
  shows "received l k (concat (map (\<lambda>sid. notify_listeners ls (mk sid)) sids))
           = (if l \<in> set ls \<and> k = k' then set sids else {})"
  by (induction sids) (simp_all add: received_append received_Nil received_notify_one assms)


lemma received_open:
  "received l k (concat (map (\<lambda>sid. notify_listeners ls (open_long_signal t ts m sid)) sids))
     = (if l \<in> set ls \<and> k = trading_signal_open_long then set sids else {})"
  by (rule received_notify) (simp_all add: open_long_signal_def)

lemma received_close:
  "received l k (concat (map (\<lambda>sid. notify_listeners ls (close_long_signal t ts sid)) sids))
     = (if l \<in> set ls \<and> k = trading_signal_close_long then set sids else {})"
  by (rule received_notify) (simp_all add: close_long_signal_def)

lemma received_open_send:
  assumes "l \<in> set (trading_signal_listeners trader)"
  shows "received l trading_signal_open_long (send_trading_signals trader ts (Some S))
           = fset S - set (current_holdings (latest_account (account_service trader)))"
proof (cases "S = {||}")
  case True
  then show ?thesis
    by (simp add: send_trading_signals_def Let_def received_append received_Nil received_close)
next
  case False
  show ?thesis
  proof (cases "S |-| fset_of_list (current_holdings (latest_account (account_service trader))) = {||}")
    case True
    then have "fset S - set (current_holdings (latest_account (account_service trader))) = {}"
      by (metis bot_fset.rep_eq fset_of_list.rep_eq minus_fset.rep_eq)
    with True False show ?thesis
      by (simp add: send_trading_signals_def Let_def received_append received_Nil received_close)
  next
    case nonempty: False
    with False assms show ?thesis
      by (simp add: send_trading_signals_def Let_def received_append received_open received_close
          fset_of_list.rep_eq)
  qed
qed


lemma received_close_send:
  assumes "l \<in> set (trading_signal_listeners trader)"
  shows "received l trading_signal_close_long (send_trading_signals trader ts (Some S))
           = (if S = {||} then set (current_holdings (latest_account (account_service trader)))
              else set (current_holdings (latest_account (account_service trader))) - fset S)"
  using assms
  by (simp add: send_trading_signals_def Let_def received_append received_Nil received_open
      received_close fset_of_list.rep_eq)


text \<open>
  C4: signal emission is partition-exact. For a consensus set \<open>S\<close> and the ids \<open>H\<close> of
  the positions with \<^verbatim>\<open>available_long > 0\<close>, every registered listener is called with
  an opening signal for exactly the instruments of \<open>S - H\<close> and with a closing signal for
  exactly those of \<open>H - S\<close>, of all of \<open>H\<close> when \<open>S\<close> is empty; no instrument gets both.
\<close>

theorem send_trading_signals_partition:
  assumes "l \<in> set (trading_signal_listeners trader)"
  shows "received l trading_signal_open_long (send_trading_signals trader ts (Some S))
           = fset S - set (current_holdings (latest_account (account_service trader)))
         \<and> received l trading_signal_close_long (send_trading_signals trader ts (Some S))
           = (if S = {||} then set (current_holdings (latest_account (account_service trader)))
              else set (current_holdings (latest_account (account_service trader))) - fset S)
         \<and> received l trading_signal_open_long (send_trading_signals trader ts (Some S))
           \<inter> received l trading_signal_close_long (send_trading_signals trader ts (Some S)) = {}"
proof -
  let ?H = "set (current_holdings (latest_account (account_service trader)))"
  note opened = received_open_send [OF assms, of ts S]
  note closed = received_close_send [OF assms, of ts S]
  have "(fset S - ?H) \<inter> (if S = {||} then ?H else ?H - fset S) = {}"
    by auto
  with opened closed show ?thesis by (simp only: simp_thms)
qed


theorem send_trading_signals_partition_witness:
  "(0::nat) \<in> set (trading_signal_listeners (example_trader [0] holding_x))
   \<and> received 0 trading_signal_open_long
        (send_trading_signals (example_trader [0] holding_x) 5 (Some {|''Y''|})) = {''Y''}
   \<and> received 0 trading_signal_close_long
        (send_trading_signals (example_trader [0] holding_x) 5 (Some {|''Y''|})) = {''X''}"
proof -
  have l: "(0::nat) \<in> set (trading_signal_listeners (example_trader [0] holding_x))"
    by (simp add: example_trader_def)
  have h: "current_holdings (latest_account (account_service (example_trader [0] holding_x))) = [''X'']"
    by (simp add: example_trader_def holding_x_def current_holdings_def)
  from send_trading_signals_partition [OF l, of 5 "{|''Y''|}"] l show ?thesis
    by (simp add: h)
qed

lemma in_send_trading_signals:
  assumes "c \<in> set (send_trading_signals trader ts selected)"
  shows "(\<exists>S sid. selected = Some S
            \<and> S |-| fset_of_list (current_holdings (latest_account (account_service trader))) \<noteq> {||}
            \<and> snd c = open_long_signal trader ts
                  (float_mul (cash (latest_account (account_service trader)))
                     (float_truediv 1 (float_of_int (int (fcard
                        (S |-| fset_of_list (current_holdings (latest_account (account_service trader)))))))))
                  sid)
         \<or> (\<exists>sid. snd c = close_long_signal trader ts sid)"
proof (cases selected)
  case None
  with assms show ?thesis
    by (auto simp: send_trading_signals_def Let_def notify_listeners_def)
next
  case (Some S)
  with assms show ?thesis
    by (auto simp: send_trading_signals_def Let_def notify_listeners_def split: if_splits)
qed


lemma open_call_in_send:
  assumes "l \<in> set (trading_signal_listeners trader)"
    and "sid |\<in>| S |-| fset_of_list (current_holdings (latest_account (account_service trader)))"
  shows "(l, open_long_signal trader ts
              (float_mul (cash (latest_account (account_service trader)))
                 (float_truediv 1 (float_of_int (int (fcard
                    (S |-| fset_of_list (current_holdings (latest_account (account_service trader)))))))))
              sid)
           \<in> set (send_trading_signals trader ts (Some S))"
proof -
  from assms(2) have "S \<noteq> {||}"
    and "S |-| fset_of_list (current_holdings (latest_account (account_service trader))) \<noteq> {||}"
    by auto
  with assms show ?thesis
    by (auto simp: send_trading_signals_def Let_def notify_listeners_def)
qed

lemma close_call_in_send:
  assumes "l \<in> set (trading_signal_listeners trader)"
    and "sid \<in> set (current_holdings (latest_account (account_service trader)))"
    and "sid |\<notin>| S"
  shows "(l, close_long_signal trader ts sid) \<in> set (send_trading_signals trader ts (Some S))"
  using assms
  by (auto simp: send_trading_signals_def Let_def notify_listeners_def fset_of_list.rep_eq)


text \<open>
  C8: every signal that \<^verbatim>\<open>send_trading_signals\<close> hands to a listener carries one of the
  two sizing fields: an opening signal an \<^verbatim>\<open>order_money\<close> and no \<^verbatim>\<open>position_pct\<close>, a closing
  signal \<^verbatim>\<open>position_pct = 1.0\<close> and no \<^verbatim>\<open>order_money\<close>.
\<close>

theorem signal_sizing_fields:
  "\<forall>c \<in> set (send_trading_signals trader ts selected).
     (trading_signal_type (snd c) = trading_signal_open_long
        \<longrightarrow> (\<exists>m. order_money (snd c) = Some m) \<and> position_pct (snd c) = None)
     \<and> (trading_signal_type (snd c) = trading_signal_close_long
        \<longrightarrow> position_pct (snd c) = Some 1 \<and> order_money (snd c) = None)"
proof
  fix c
  assume "c \<in> set (send_trading_signals trader ts selected)"
  then consider m sid where "snd c = open_long_signal trader ts m sid"
    | sid where "snd c = close_long_signal trader ts sid"
    using in_send_trading_signals by blast
  then show "(trading_signal_type (snd c) = trading_signal_open_long
        \<longrightarrow> (\<exists>m. order_money (snd c) = Some m) \<and> position_pct (snd c) = None)
     \<and> (trading_signal_type (snd c) = trading_signal_close_long
        \<longrightarrow> position_pct (snd c) = Some 1 \<and> order_money (snd c) = None)"
    by cases (simp_all add: open_long_signal_def close_long_signal_def)
qed

theorem signal_sizing_fields_witness:
  "(0, close_long_signal (example_trader [0] holding_x) 5 ''X'')
     \<in> set (send_trading_signals (example_trader [0] holding_x) 5 (Some {|''Y''|}))
   \<and> trading_signal_type (close_long_signal (example_trader [0] holding_x) 5 ''X'')
       = trading_signal_close_long
   \<and> position_pct (close_long_signal (example_trader [0] holding_x) 5 ''X'') = Some 1
   \<and> order_money (close_long_signal (example_trader [0] holding_x) 5 ''X'') = None"
proof -
  let ?t = "example_trader [0] holding_x"
  have "(0, close_long_signal ?t 5 ''X'') \<in> set (send_trading_signals ?t 5 (Some {|''Y''|}))"
    by (rule close_call_in_send)
      (simp_all add: example_trader_def holding_x_def current_holdings_def)
  moreover have "trading_signal_type (close_long_signal ?t 5 ''X'') = trading_signal_close_long"
    by (simp add: close_long_signal_def)
  ultimately show ?thesis
    using signal_sizing_fields [of ?t 5 "Some {|''Y''|}"] by fastforce
qed

subsection \<open>Order money\<close>

lemma round_binary64_one: "round_binary64 1 = 1"
  by (simp add: round_binary64_def binary_exponent_def pow2_def round_half_even_def
      compute_floorlog Let_def)

lemma pow2_powr: "pow2 e = 2 powr (real_of_int e)"
  by (simp add: pow2_def powr_int)

lemma pow2_pos: "0 < pow2 e"
  by (simp add: pow2_powr)

lemma pow2_add: "pow2 (a + b) = pow2 a * pow2 b"
  by (simp add: pow2_powr powr_add)

lemma pow2_nat: "pow2 (int n) = 2 ^ n"
  by (simp add: pow2_def)

lemma pow2_neg: "pow2 (- int n) = 1 / 2 ^ n"
  by (simp add: pow2_powr powr_minus powr_realpow inverse_eq_divide)

lemma pow2_mono: "a \<le> b \<Longrightarrow> pow2 a \<le> pow2 b"
  by (simp add: pow2_powr)

lemma pow2_less_iff: "pow2 a < pow2 b \<longleftrightarrow> a < b"
  by (simp add: pow2_powr)

lemma real_of_nat_power_le:
  assumes "2 ^ a \<le> (n::nat)"
  shows "(2::real) ^ a \<le> real n"
proof -
  from assms have "real (2 ^ a) \<le> real n" by (simp only: of_nat_le_iff)
  then show ?thesis by simp
qed

lemma real_of_nat_less_power:
  assumes "(n::nat) < 2 ^ a"
  shows "real n + 1 \<le> (2::real) ^ a"
proof -
  from assms have "n + 1 \<le> 2 ^ a" by simp
  then have "real (n + 1) \<le> real (2 ^ a)" by (simp only: of_nat_le_iff)
  then show ?thesis by simp
qed

lemma binary_exponent_bounds:
  assumes "0 < x"
  shows "pow2 (binary_exponent x) \<le> x \<and> x < pow2 (binary_exponent x + 1)"
proof (cases "1 \<le> x")
  case True
  define n where "n = nat \<lfloor>x\<rfloor>"
  define f where "f = floorlog 2 n"
  from True have "1 \<le> \<lfloor>x\<rfloor>" by linarith
  then have n: "0 < n" "real n \<le> x" "x < real n + 1"
    unfolding n_def by linarith+
  from floorlog_bounds [of n 2] n(1) have fb: "2 ^ (f - 1) \<le> n" "n < 2 ^ f"
    by (simp_all add: f_def)
  from n(1) have f: "0 < f"
    by (simp add: f_def floorlog_eq_zero_iff neq0_conv [symmetric] del: neq0_conv)
  have be: "binary_exponent x = int (f - 1)"
    using True f by (simp add: binary_exponent_def n_def f_def)
  have "pow2 (binary_exponent x) = 2 ^ (f - 1)"
    by (simp only: be pow2_nat)
  with real_of_nat_power_le [OF fb(1)] n(2) have lo: "pow2 (binary_exponent x) \<le> x"
    by linarith
  have "int (f - 1) + 1 = int f" using f by simp
  then have "pow2 (binary_exponent x + 1) = 2 ^ f"
    by (simp only: be pow2_nat)
  with real_of_nat_less_power [OF fb(2)] n(3) have "x < pow2 (binary_exponent x + 1)"
    by linarith
  with lo show ?thesis ..
next
  case False
  define y where "y = 1 / x"
  define n where "n = nat (\<lceil>y\<rceil> - 1)"
  define f where "f = floorlog 2 n"
  from False assms have y: "1 < y" by (simp add: y_def)
  then have c: "2 \<le> \<lceil>y\<rceil>" by linarith
  then have n: "0 < n" "real n < y" "y \<le> real n + 1"
    unfolding n_def by linarith+
  from floorlog_bounds [of n 2] n(1) have fb: "2 ^ (f - 1) \<le> n" "n < 2 ^ f"
    by (simp_all add: f_def)
  from n(1) have f: "0 < f"
    by (simp add: f_def floorlog_eq_zero_iff neq0_conv [symmetric] del: neq0_conv)
  have be: "binary_exponent x = - int f"
    using False by (simp add: binary_exponent_def n_def f_def y_def)
  from real_of_nat_less_power [OF fb(2)] n(3) have "y \<le> 2 ^ f" by linarith
  then have "1 / 2 ^ f \<le> x"
    using assms by (simp add: y_def field_simps)
  moreover have "pow2 (binary_exponent x) = 1 / 2 ^ f"
    by (simp only: be pow2_neg)
  ultimately have lo: "pow2 (binary_exponent x) \<le> x" by simp
  from real_of_nat_power_le [OF fb(1)] n(2) have "2 ^ (f - 1) < y" by linarith
  then have "x < 1 / 2 ^ (f - 1)"
    using assms by (simp add: y_def field_simps)
  moreover have "- int f + 1 = - int (f - 1)" using f by simp
  then have "pow2 (binary_exponent x + 1) = 1 / 2 ^ (f - 1)"
    by (simp only: be pow2_neg)
  ultimately have "x < pow2 (binary_exponent x + 1)" by simp
  with lo show ?thesis ..
qed

lemma round_half_even_error: "\<bar>of_int (round_half_even y) - y\<bar> \<le> 1 / 2"
proof -
  have "of_int \<lfloor>y\<rfloor> \<le> y" "y < of_int \<lfloor>y\<rfloor> + 1"
    by linarith+
  then show ?thesis
    by (auto simp: round_half_even_def Let_def)
qed

lemma round_half_even_of_int: "round_half_even (of_int n) = n"
  by (simp add: round_half_even_def)


lemma round_binary64_error_ulp:
  assumes "x \<noteq> 0"
  shows "\<bar>round_binary64 x - x\<bar> \<le> pow2 (max (binary_exponent \<bar>x\<bar>) (- 1022) - 53)"
proof -
  define e where "e = max (binary_exponent \<bar>x\<bar>) (- 1022)"
  define ulp where "ulp = pow2 (e - 52)"
  define r where "r = round_half_even (\<bar>x\<bar> / ulp)"
  have ulp: "0 < ulp" by (simp add: ulp_def pow2_pos)
  have fl: "round_binary64 x = sgn x * of_int r * ulp"
    using assms by (simp add: round_binary64_def Let_def e_def ulp_def r_def)
  have "round_binary64 x - x = sgn x * ulp * (of_int r - \<bar>x\<bar> / ulp)"
    using ulp by (simp add: fl field_simps abs_sgn sgn_mult_abs mult.commute)
  then have "\<bar>round_binary64 x - x\<bar> = ulp * \<bar>of_int r - \<bar>x\<bar> / ulp\<bar>"
    using ulp assms by (simp add: abs_mult abs_sgn_eq)
  also have "\<dots> \<le> ulp * (1 / 2)"
    using ulp round_half_even_error [of "\<bar>x\<bar> / ulp"]
    by (intro mult_left_mono) (simp_all add: r_def)
  also have "\<dots> = pow2 (e - 53)"
  proof -
    have "pow2 (e - 52) = pow2 (e - 53) * pow2 1"
      by (simp add: pow2_add [symmetric])
    then show ?thesis by (simp add: ulp_def pow2_def)
  qed
  finally show ?thesis by (simp only: e_def)
qed

lemma binary_exponent_normal:
  assumes "pow2 (- 1022) \<le> x"
  shows "- 1022 \<le> binary_exponent x"
proof (rule ccontr)
  assume "\<not> - 1022 \<le> binary_exponent x"
  then have "binary_exponent x + 1 \<le> - 1022" by simp
  then have "pow2 (binary_exponent x + 1) \<le> pow2 (- 1022)" by (rule pow2_mono)
  moreover from assms have "0 < x" using pow2_pos [of "- 1022"] by linarith
  then have "x < pow2 (binary_exponent x + 1)" using binary_exponent_bounds by blast
  ultimately show False using assms by linarith
qed

lemma round_binary64_error_normal:
  assumes "pow2 (- 1022) \<le> \<bar>x\<bar>"
  shows "\<bar>round_binary64 x - x\<bar> \<le> \<bar>x\<bar> / 2 ^ 53"
proof -
  from assms have nz: "x \<noteq> 0" using pow2_pos [of "- 1022"] by auto
  then have pos: "0 < \<bar>x\<bar>" by simp
  from binary_exponent_normal [OF assms]
  have e: "max (binary_exponent \<bar>x\<bar>) (- 1022) = binary_exponent \<bar>x\<bar>" by simp
  have "pow2 (binary_exponent \<bar>x\<bar> - 53) = pow2 (binary_exponent \<bar>x\<bar>) * pow2 (- int 53)"
    by (simp add: pow2_add [symmetric])
  also have "\<dots> = pow2 (binary_exponent \<bar>x\<bar>) / 2 ^ 53"
    by (simp only: pow2_neg) simp
  also have "\<dots> \<le> \<bar>x\<bar> / 2 ^ 53"
    using binary_exponent_bounds [OF pos] by (simp add: divide_right_mono)
  finally show ?thesis
    using round_binary64_error_ulp [OF nz] by (simp only: e)
qed

lemma round_binary64_error:
  "\<bar>round_binary64 x - x\<bar> \<le> \<bar>x\<bar> / 2 ^ 53 + 1 / 2 ^ 1075"
proof (cases "pow2 (- 1022) \<le> \<bar>x\<bar>")
  case True
  from round_binary64_error_normal [OF True] show ?thesis
    by (rule order_trans) simp
next
  case False
  show ?thesis
  proof (cases "x = 0")
    case True
    then show ?thesis by (simp add: round_binary64_def)
  next
    case nz: False
    then have pos: "0 < \<bar>x\<bar>" by simp
    have "binary_exponent \<bar>x\<bar> < - 1022"
    proof (rule ccontr)
      assume "\<not> binary_exponent \<bar>x\<bar> < - 1022"
      then have "pow2 (- 1022) \<le> pow2 (binary_exponent \<bar>x\<bar>)"
        by (intro pow2_mono) simp
      with binary_exponent_bounds [OF pos] False show False by linarith
    qed
    then have e: "max (binary_exponent \<bar>x\<bar>) (- 1022) - 53 = - int 1075" by simp
    have "\<bar>round_binary64 x - x\<bar> \<le> 1 / 2 ^ 1075"
      using round_binary64_error_ulp [OF nz] by (simp only: e pow2_neg)
    moreover have "0 \<le> \<bar>x\<bar> / 2 ^ 53" by simp
    ultimately show ?thesis by linarith
  qed
qed

lemma round_binary64_of_nat:
  assumes "0 < k" and "k < 2 ^ 53"
  shows "round_binary64 (real k) = real k"
proof -
  define b where "b = binary_exponent (real k)"
  from assms(1) have pos: "0 < real k" and one: "1 \<le> real k" by simp_all
  from binary_exponent_bounds [OF pos]
  have lo: "pow2 b \<le> real k" and hi: "real k < pow2 (b + 1)" by (simp_all add: b_def)
  have "pow2 0 < pow2 (b + 1)" using one hi by (simp add: pow2_def)
  then have b0: "0 \<le> b" by (simp add: pow2_less_iff)
  from assms(2) have "real k < 2 ^ 53"
    by (metis of_nat_less_iff of_nat_numeral of_nat_power)
  moreover have "pow2 (int 53) = 2 ^ 53" by (simp only: pow2_nat)
  ultimately have "pow2 b < pow2 (int 53)" using lo by linarith
  then have b52: "b \<le> 52" by (simp add: pow2_less_iff)
  define d where "d = nat (52 - b)"
  have ulp: "pow2 (max b (- 1022) - 52) = 1 / 2 ^ d"
  proof -
    from b0 b52 have "max b (- 1022) - 52 = - int d" by (simp add: d_def)
    then show ?thesis by (simp only: pow2_neg)
  qed
  have "\<bar>real k\<bar> / (1 / 2 ^ d) = of_int (int (k * 2 ^ d))" by simp
  then have "round_half_even (\<bar>real k\<bar> / (1 / 2 ^ d)) = int (k * 2 ^ d)"
    by (simp only: round_half_even_of_int)
  then show ?thesis
    using pos by (simp add: round_binary64_def Let_def b_def [symmetric] ulp)
qed

lemma float_of_int_exact:
  assumes "0 < k" and "k < 2 ^ 53"
  shows "float_of_int (int k) = real k"
  using round_binary64_of_nat [OF assms] by (simp add: float_of_int_def)

lemma equal_weight_error:
  assumes "0 < k" and "k < 2 ^ 53"
  shows "\<bar>float_mul C (float_truediv 1 (float_of_int (int k))) - C / real k\<bar>
           \<le> \<bar>C / real k\<bar> / 2 ^ 51 + 1 / 2 ^ 1075"
proof -
  define q where "q = 1 / real k"
  define p where "p = round_binary64 q"
  define A where "A = \<bar>C\<bar> * q"
  from assms(1) have q: "0 < q" by (simp add: q_def)
  from assms(2) have "real k < 2 ^ 53"
    by (metis of_nat_less_iff of_nat_numeral of_nat_power)
  with assms(1) have "1 / 2 ^ 53 \<le> q"
    by (simp add: q_def field_simps)
  moreover have "pow2 (- 1022) \<le> pow2 (- int 53)" by (rule pow2_mono) simp
  then have "pow2 (- 1022) \<le> 1 / 2 ^ 53" by (simp only: pow2_neg)
  ultimately have "pow2 (- 1022) \<le> \<bar>q\<bar>" using q by linarith
  from round_binary64_error_normal [OF this] q have e1: "\<bar>p - q\<bar> \<le> q / 2 ^ 53"
    by (simp add: p_def)
  define u where "u = A / 2 ^ 53"
  define t :: real where "t = 1 / 2 ^ 1075"
  have A: "0 \<le> A" using q by (simp add: A_def)
  then have u: "0 \<le> u" "u \<le> A" "A / 2 ^ 51 = 4 * u"
    by (simp_all add: u_def)
  have "\<bar>C * p - C * q\<bar> = \<bar>C\<bar> * \<bar>p - q\<bar>"
    by (simp add: abs_mult right_diff_distrib [symmetric])
  also have "\<dots> \<le> \<bar>C\<bar> * (q / 2 ^ 53)"
    using e1 by (intro mult_left_mono) simp_all
  finally have e2: "\<bar>C * p - C * q\<bar> \<le> u" by (simp add: A_def u_def)
  have "\<bar>C * q\<bar> = A" using q by (simp add: A_def abs_mult)
  with e2 u have x: "\<bar>C * p\<bar> \<le> 2 * A" by linarith
  then have "\<bar>C * p\<bar> / 2 ^ 53 \<le> 2 * A / 2 ^ 53" by (rule divide_right_mono) simp
  then have x': "\<bar>C * p\<bar> / 2 ^ 53 \<le> 2 * u" by (simp add: u_def)
  have e3: "\<bar>round_binary64 (C * p) - C * p\<bar> \<le> \<bar>C * p\<bar> / 2 ^ 53 + t"
    unfolding t_def by (rule round_binary64_error)
  have "\<bar>round_binary64 (C * p) - C * q\<bar> \<le> 4 * u + t"
    using e2 e3 x' u by linarith
  then have "\<bar>round_binary64 (C * p) - C * q\<bar> \<le> A / 2 ^ 51 + 1 / 2 ^ 1075"
    by (simp only: u t_def)
  moreover have "float_mul C (float_truediv 1 (float_of_int (int k))) = round_binary64 (C * p)"
    by (simp add: float_mul_def float_truediv_def float_of_int_exact [OF assms] p_def q_def)
  moreover have "C * q = C / real k" by (simp add: q_def)
  moreover have "A = \<bar>C / real k\<bar>" using q by (simp add: A_def q_def abs_mult)
  ultimately show ?thesis by simp
qed

lemma reciprocal_of_one: "float_truediv 1 (float_of_int 1) = 1"
  by (simp add: float_truediv_def float_of_int_def round_binary64_one)

lemma ten_thousand_thirds:
  "float_mul 10000 (float_truediv 1 (float_of_int 3)) = 7330077518506666 / 2 ^ 41"
  "float_truediv 10000 (float_of_int 3) = 7330077518506667 / 2 ^ 41"
  by (simp_all add: float_mul_def float_truediv_def float_of_int_def round_binary64_def
      binary_exponent_def pow2_def round_half_even_def compute_floorlog Let_def)

text \<open>
  C5, as amended: with cash \<open>C\<close> and \<open>k = |longed| > 0\<close>, every opening signal of the tick
  carries the same \<^verbatim>\<open>order_money\<close>, the float product of \<open>C\<close> and the float quotient
  \<^verbatim>\<open>1.0 / k\<close>. For \<open>k = 1\<close> and a float \<open>C\<close> it is \<open>C\<close> itself; for fewer than \<open>2 ^ 53\<close>
  instruments it differs from \<open>C / k\<close> by at most \<open>|C / k| / 2 ^ 51 + 1 / 2 ^ 1075\<close>.
\<close>

theorem open_long_order_money:
  fixes trader :: Trader and S :: targets
  defines "acc \<equiv> latest_account (account_service trader)"
  defines "k \<equiv> fcard (S |-| fset_of_list (current_holdings acc))"
  assumes "c \<in> set (send_trading_signals trader ts (Some S))"
    and "trading_signal_type (snd c) = trading_signal_open_long"
  shows "0 < k
         \<and> order_money (snd c)
             = Some (float_mul (cash acc) (float_truediv 1 (float_of_int (int k))))
         \<and> (k = 1 \<and> round_binary64 (cash acc) = cash acc
              \<longrightarrow> order_money (snd c) = Some (cash acc))
         \<and> (k < 2 ^ 53
              \<longrightarrow> (\<exists>m. order_money (snd c) = Some m
                     \<and> \<bar>m - cash acc / real k\<bar> \<le> \<bar>cash acc / real k\<bar> / 2 ^ 51 + 1 / 2 ^ 1075))"
proof -
  from assms(4) have "\<nexists>sid. snd c = close_long_signal trader ts sid"
    by (auto simp: close_long_signal_def)
  with in_send_trading_signals [OF assms(3)]
  obtain sid where ne: "S |-| fset_of_list (current_holdings acc) \<noteq> {||}"
    and sig: "snd c = open_long_signal trader ts
                (float_mul (cash acc) (float_truediv 1 (float_of_int (int k)))) sid"
    unfolding acc_def k_def by auto
  from ne have pos: "0 < k"
    unfolding k_def by (simp add: fcard_0_eq neq0_conv [symmetric] del: neq0_conv)
  from sig have money: "order_money (snd c)
      = Some (float_mul (cash acc) (float_truediv 1 (float_of_int (int k))))"
    by (simp add: open_long_signal_def)
  have one: "order_money (snd c) = Some (cash acc)"
    if "k = 1" and "round_binary64 (cash acc) = cash acc"
    using that money by (simp add: reciprocal_of_one float_mul_def)
  have near: "\<exists>m. order_money (snd c) = Some m
        \<and> \<bar>m - cash acc / real k\<bar> \<le> \<bar>cash acc / real k\<bar> / 2 ^ 51 + 1 / 2 ^ 1075"
    if "k < 2 ^ 53"
    using money equal_weight_error [OF pos that, of "cash acc"] by blast
  from pos money one near show ?thesis by blast
qed

theorem open_long_order_money_witness:
  "(0, open_long_signal (example_trader [0] holding_x) 5 10000 ''Y'')
     \<in> set (send_trading_signals (example_trader [0] holding_x) 5 (Some {|''Y''|}))
   \<and> trading_signal_type (open_long_signal (example_trader [0] holding_x) 5 10000 ''Y'')
       = trading_signal_open_long
   \<and> fcard ({|''Y''|} |-| fset_of_list
         (current_holdings (latest_account (account_service (example_trader [0] holding_x))))) = 1
   \<and> round_binary64 (cash (latest_account (account_service (example_trader [0] holding_x))))
       = cash (latest_account (account_service (example_trader [0] holding_x)))
   \<and> order_money (open_long_signal (example_trader [0] holding_x) 5 10000 ''Y'') = Some 10000"
proof -
  let ?t = "example_trader [0] holding_x"
  have h: "current_holdings (latest_account (account_service ?t)) = [''X'']"
    and cash: "cash (latest_account (account_service ?t)) = 10000"
    by (simp_all add: example_trader_def holding_x_def current_holdings_def)
  have k: "fcard ({|''Y''|} |-| fset_of_list (current_holdings (latest_account (account_service ?t)))) = 1"
    by (simp add: h fcard_finsert_if)
  have fl: "round_binary64 (cash (latest_account (account_service ?t)))
              = cash (latest_account (account_service ?t))"
    by (simp add: cash round_binary64_def binary_exponent_def pow2_def round_half_even_def
        compute_floorlog Let_def)
  have m: "float_mul (cash (latest_account (account_service ?t)))
             (float_truediv 1 (float_of_int (int (fcard
                ({|''Y''|} |-| fset_of_list (current_holdings (latest_account (account_service ?t))))))))
           = 10000"
    unfolding k using fl by (simp add: reciprocal_of_one float_mul_def cash)
  have "(0, open_long_signal ?t 5
            (float_mul (cash (latest_account (account_service ?t)))
              (float_truediv 1 (float_of_int (int (fcard
                 ({|''Y''|} |-| fset_of_list (current_holdings (latest_account (account_service ?t)))))))))
            ''Y'')
          \<in> set (send_trading_signals ?t 5 (Some {|''Y''|}))"
    by (rule open_call_in_send) (simp_all add: h, simp add: example_trader_def)
  then have mem: "(0, open_long_signal ?t 5 10000 ''Y'')
      \<in> set (send_trading_signals ?t 5 (Some {|''Y''|}))"
    by (simp only: m)
  have ty: "trading_signal_type (snd (0::nat, open_long_signal ?t 5 10000 ''Y''))
              = trading_signal_open_long"
    by (simp add: open_long_signal_def)
  from open_long_order_money [OF mem ty] k fl
  have "order_money (snd (0::nat, open_long_signal ?t 5 10000 ''Y''))
          = Some (cash (latest_account (account_service ?t)))"
    by blast
  then have "order_money (open_long_signal ?t 5 10000 ''Y'') = Some 10000"
    by (simp add: cash)
  with mem ty k fl show ?thesis by simp
qed

theorem order_money_rounding_counterexample:
  "(0, open_long_signal (example_trader [0] cash_only) 5 (7330077518506666 / 2 ^ 41) ''A'')
     \<in> set (send_trading_signals (example_trader [0] cash_only) 5 (Some {|''A'', ''B'', ''C''|}))
   \<and> cash (latest_account (account_service (example_trader [0] cash_only))) = 10000
   \<and> fcard ({|''A'', ''B'', ''C''|}
        |-| fset_of_list (current_holdings (latest_account (account_service (example_trader [0] cash_only))))) = 3
   \<and> order_money (open_long_signal (example_trader [0] cash_only) 5 (7330077518506666 / 2 ^ 41) ''A'')
       \<noteq> Some (10000 / 3)
   \<and> order_money (open_long_signal (example_trader [0] cash_only) 5 (7330077518506666 / 2 ^ 41) ''A'')
       \<noteq> Some (float_truediv 10000 (float_of_int 3))"
proof -
  let ?t = "example_trader [0] cash_only"
  have h: "current_holdings (latest_account (account_service ?t)) = []"
    and cash: "cash (latest_account (account_service ?t)) = 10000"
    by (simp_all add: example_trader_def cash_only_def current_holdings_def)
  have k: "fcard ({|''A'', ''B'', ''C''|}
             |-| fset_of_list (current_holdings (latest_account (account_service ?t)))) = 3"
    by (simp add: h fcard_finsert_if)
  have m: "float_mul (cash (latest_account (account_service ?t)))
             (float_truediv 1 (float_of_int (int (fcard
                ({|''A'', ''B'', ''C''|}
                   |-| fset_of_list (current_holdings (latest_account (account_service ?t))))))))
           = 7330077518506666 / 2 ^ 41"
    unfolding k cash using ten_thousand_thirds(1) by simp
  have "(0, open_long_signal ?t 5
            (float_mul (cash (latest_account (account_service ?t)))
              (float_truediv 1 (float_of_int (int (fcard
                 ({|''A'', ''B'', ''C''|}
                    |-| fset_of_list (current_holdings (latest_account (account_service ?t)))))))))
            ''A'')
          \<in> set (send_trading_signals ?t 5 (Some {|''A'', ''B'', ''C''|}))"
    by (rule open_call_in_send) (simp_all add: h, simp add: example_trader_def)
  then have mem: "(0, open_long_signal ?t 5 (7330077518506666 / 2 ^ 41) ''A'')
      \<in> set (send_trading_signals ?t 5 (Some {|''A'', ''B'', ''C''|}))"
    by (simp only: m)
  have "order_money (open_long_signal ?t 5 (7330077518506666 / 2 ^ 41) ''A'') \<noteq> Some (10000 / 3)"
    and "order_money (open_long_signal ?t 5 (7330077518506666 / 2 ^ 41) ''A'')
           \<noteq> Some (float_truediv 10000 (float_of_int 3))"
    by (simp_all add: open_long_signal_def ten_thousand_thirds)
  with mem cash k show ?thesis by (simp only: simp_thms)
qed

end
